theory Spec2Isabelle
  imports
    Main
    "HOL-Library.Finite_Map"
    "HOL-Library.Char_ord"
    "HOL-Library.List_Lexorder"
begin

section \<open>libral: values, attribute maps, changes and resources (lib/src/provider.cc)\<close>

subsection \<open>Results and faults (lib/inc/libral/result.hpp)\<close>

text \<open>
  \<^verbatim>\<open>struct error { std::string detail; }\<close> and \<^verbatim>\<open>template <class R> class result\<close>:
  a result is either an error or the value that was wanted.
\<close>

datatype error = Error (detail: string)

datatype 'a result = Err error | Ok 'a

fun is_ok :: "'a result \<Rightarrow> bool" where
  "is_ok (Ok x) = True"
| "is_ok (Err e) = False"

text \<open>
  C++ exceptions are a second channel, kept apart from \<open>result\<close>: a function that may
  throw returns \<open>fault + 'a\<close>, with \<open>Inl\<close> for the exception.  \<open>Invalid_argument\<close> and
  \<open>Logic_error\<close> are the \<^verbatim>\<open>std::invalid_argument\<close> and \<^verbatim>\<open>std::logic_error\<close> thrown by
  the sources; the three \<open>Data_\<close> faults are the exceptions of the JSON document
  collaborator (parse failure, missing key, value of the wrong type).
\<close>

datatype fault =
    Invalid_argument string
  | Logic_error string
  | Data_parse_error
  | Data_key_error
  | Data_type_error

text \<open>\<^verbatim>\<open>R& result::operator*()\<close>: the ok value, or a \<^verbatim>\<open>std::logic_error\<close> on an error.\<close>

fun deref :: "'a result \<Rightarrow> fault + 'a" where
  "deref (Ok x) = Inr x"
| "deref (Err e) = Inl (Logic_error (''attempt to get ok value from err: '' @ detail e))"

subsection \<open>Values\<close>

text \<open>
  Modelled from the spec: the declaration of \<^verbatim>\<open>libral::value\<close> (value.hpp) is not among
  the sources.  The spec gives a tagged union over absent, string, boolean, integer and
  string array; \<^verbatim>\<open>boost::none\<close> converts to the absent value, which is also what a
  default-constructed value holds; equality compares the tag, then the payload.
\<close>

datatype val = VNone | VString string | VBool bool | VInt int | VArray "string list"

definition is_present :: "val \<Rightarrow> bool" where
  "is_present v = (v \<noteq> VNone)"

text \<open>\<^verbatim>\<open>value::as<std::string>()\<close>: the payload when the value is of that type.\<close>

fun as_string :: "val \<Rightarrow> string option" where
  "as_string (VString s) = Some s"
| "as_string v = None"

subsection \<open>Attribute maps\<close>

text \<open>
  \<^verbatim>\<open>attr_map\<close> is a \<^verbatim>\<open>std::map<std::string, value>\<close>: a finite map with unique keys,
  iterated in ascending key order (\<open>sorted_list_of_fmap\<close>, with the lexicographic
  order on byte strings).
\<close>

type_synonym attr_map = "(string, val) fmap"

text \<open>\<^verbatim>\<open>const value attr_map::operator[](const std::string& key) const\<close>\<close>

definition attr_map_get :: "attr_map \<Rightarrow> string \<Rightarrow> val" where
  "attr_map_get m key = (case fmlookup m key of None \<Rightarrow> VNone | Some v \<Rightarrow> v)"

text \<open>
  \<^verbatim>\<open>value& attr_map::operator[](const std::string& key)\<close> is \<^verbatim>\<open>std::map::operator[]\<close>:
  a missing key is first inserted with a default-constructed value.  The model returns
  the map after the access and the value the reference points to.
\<close>

definition attr_map_index :: "attr_map \<Rightarrow> string \<Rightarrow> attr_map \<times> val" where
  "attr_map_index m key =
     (case fmlookup m key of
        None \<Rightarrow> (fmupd key VNone m, VNone)
      | Some v \<Rightarrow> (m, v))"

text \<open>\<^verbatim>\<open>m[key] = v\<close> through the non-const accessor.\<close>

definition attr_map_assign :: "attr_map \<Rightarrow> string \<Rightarrow> val \<Rightarrow> attr_map" where
  "attr_map_assign m key v = fmupd key v (fst (attr_map_index m key))"

text \<open>
  \<^verbatim>\<open>template<typename T> const T& attr_map::lookup(key, deflt) const\<close>.  The payload type
  \<open>T\<close> is the type variable \<open>'t\<close>; \<open>as\<close> is \<^verbatim>\<open>value::as<T>\<close>.
\<close>

definition lookup :: "(val \<Rightarrow> 't option) \<Rightarrow> attr_map \<Rightarrow> string \<Rightarrow> 't \<Rightarrow> 't" where
  "lookup as m key deflt =
     (case fmlookup m key of
        None \<Rightarrow> deflt
      | Some v \<Rightarrow> (case as v of Some p \<Rightarrow> p | None \<Rightarrow> deflt))"

text \<open>\<^verbatim>\<open>template<typename T> const T* attr_map::lookup(key) const\<close>; \<open>None\<close> is the null pointer.\<close>

definition lookup_ptr :: "(val \<Rightarrow> 't option) \<Rightarrow> attr_map \<Rightarrow> string \<Rightarrow> 't option" where
  "lookup_ptr as m key = (case fmlookup m key of None \<Rightarrow> None | Some v \<Rightarrow> as v)"

definition is_name :: "string \<Rightarrow> bool" where
  "is_name key = (key = ''name'')"

subsection \<open>Changes\<close>

text \<open>
  Modelled from the spec: the declaration of \<^verbatim>\<open>struct change\<close> (provider.hpp) is not among
  the sources.  Its fields are \<^verbatim>\<open>attr\<close>, \<^verbatim>\<open>is\<close> and \<^verbatim>\<open>was\<close> (read by \<^verbatim>\<open>operator<<\<close>),
  and \<^verbatim>\<open>change(attr, is, was)\<close> fills them in that order.  \<open>is\<close> is a keyword of
  Isabelle, hence \<open>is_val\<close> and \<open>was_val\<close>.
\<close>

datatype change = Change (attr: string) (is_val: val) (was_val: val)

type_synonym changes = "change list"

text \<open>\<^verbatim>\<open>void changes::add(attr, is, was) { push_back(change(attr, is, was)); }\<close>\<close>

definition add :: "changes \<Rightarrow> string \<Rightarrow> val \<Rightarrow> val \<Rightarrow> changes" where
  "add chgs a i w = chgs @ [Change a i w]"

fun exists_change :: "changes \<Rightarrow> string \<Rightarrow> bool" where
  "exists_change [] a = False"
| "exists_change (ch # chgs) a = (if attr ch = a then True else exists_change chgs a)"

subsection \<open>Resources\<close>

record resource =
  name :: string
  attrs :: attr_map

definition name_access_msg :: string where
  "name_access_msg = ''The name can not be accessed with operator[]''"

text \<open>\<^verbatim>\<open>const value resource::operator[](const std::string& key) const\<close>\<close>

definition resource_get :: "resource \<Rightarrow> string \<Rightarrow> fault + val" where
  "resource_get r key =
     (if is_name key then Inl (Invalid_argument name_access_msg)
      else Inr (attr_map_get (attrs r) key))"

text \<open>
  \<^verbatim>\<open>value& resource::operator[](const std::string& key)\<close>: the resource after the access
  (the underlying map may have grown by the key) and the value referred to.
\<close>

definition resource_index :: "resource \<Rightarrow> string \<Rightarrow> fault + (resource \<times> val)" where
  "resource_index r key =
     (if is_name key then Inl (Invalid_argument name_access_msg)
      else Inr (r\<lparr>attrs := fst (attr_map_index (attrs r) key)\<rparr>,
                snd (attr_map_index (attrs r) key)))"

text \<open>\<^verbatim>\<open>r[key] = v\<close>: a store through the reference of the non-const accessor.\<close>

definition resource_assign :: "resource \<Rightarrow> string \<Rightarrow> val \<Rightarrow> fault + resource" where
  "resource_assign r key v =
     (if is_name key then Inl (Invalid_argument name_access_msg)
      else Inr (r\<lparr>attrs := attr_map_assign (attrs r) key v\<rparr>))"

text \<open>
  \<^verbatim>\<open>void resource::check(changes& chgs, const attr_map& should, const std::vector<std::string>& props)\<close>.
  \<^verbatim>\<open>is\<close> is the resource itself, not const, so \<^verbatim>\<open>is[prop]\<close> is the non-const accessor;
  \<^verbatim>\<open>should[prop]\<close> is the const accessor of the map.  The result is the resource and the
  change set when the loop stopped, and the exception that stopped it, if any.
\<close>

fun check :: "resource \<Rightarrow> changes \<Rightarrow> attr_map \<Rightarrow> string list \<Rightarrow> (resource \<times> changes) \<times> fault option" where
  "check r chgs should [] = ((r, chgs), None)"
| "check r chgs should (prop # props) =
     (if is_present (attr_map_get should prop) then
        (case resource_index r prop of
           Inl f \<Rightarrow> ((r, chgs), Some f)
         | Inr (r1, cur) \<Rightarrow>
             if cur \<noteq> attr_map_get should prop then
               (case resource_index r1 prop of
                  Inl f \<Rightarrow> ((r1, chgs), Some f)
                | Inr (r2, cur2) \<Rightarrow>
                    check r2 (add chgs prop (attr_map_get should prop) cur2) should props)
             else check r1 chgs should props)
      else check r chgs should props)"

subsection \<open>Providers: parse and prepare\<close>

text \<open>
  Modelled from the spec: \<^verbatim>\<open>prov::spec\<close> and its attribute entries (prov/spec.hpp) are not
  among the sources.  A spec maps an attribute name to that attribute's entry, and
  an entry offers the type-directed read of wire text, \<^verbatim>\<open>read_string\<close>.
\<close>

record attr_spec =
  read_string :: "string \<Rightarrow> val result"

record prov_spec =
  attr_of :: "string \<Rightarrow> attr_spec option"

text \<open>
  The provider's own state: \<^verbatim>\<open>_path\<close>, the path of the external script, and \<^verbatim>\<open>_spec\<close>,
  a \<^verbatim>\<open>boost::optional<prov::spec>\<close> that is empty until \<^verbatim>\<open>prepare\<close> has succeeded.
\<close>

record provider =
  path :: string
  spec :: "prov_spec option"

text \<open>Quoted text inside a message: \<^verbatim>\<open>'{1}'\<close>.\<close>

definition quoted :: "string \<Rightarrow> string" where
  "quoted s = [CHR 0x27] @ s @ [CHR 0x27]"

text \<open>\<^verbatim>\<open>result<value> provider::parse(const std::string& name, const std::string& v)\<close>\<close>

definition parse :: "provider \<Rightarrow> string \<Rightarrow> string \<Rightarrow> val result" where
  "parse p nm v =
     (case spec p of
        None \<Rightarrow> Err (Error ''internal error: spec was not initialized'')
      | Some sp \<Rightarrow>
          (case attr_of sp nm of
             None \<Rightarrow> Err (Error (''there is no attribute '' @ quoted nm))
           | Some a \<Rightarrow> read_string a v))"

text \<open>
  \<^verbatim>\<open>result<bool> provider::prepare()\<close>.  \<^verbatim>\<open>describe()\<close> is virtual and reads the
  provider's metadata; its result \<open>res\<close> is a parameter.
\<close>

definition prepare :: "prov_spec result \<Rightarrow> provider \<Rightarrow> provider \<times> bool result" where
  "prepare res p =
     (case res of
        Err e \<Rightarrow> (p, Err e)
      | Ok sp \<Rightarrow> (p\<lparr>spec := Some sp\<rparr>, Ok True))"

section \<open>The external-process provider (lib/src/json_provider.cc)\<close>

subsection \<open>The JSON document collaborator\<close>

text \<open>
  \<^verbatim>\<open>leatherman::json_container::JsonContainer\<close> is consumed through \<^verbatim>\<open>includes\<close>,
  \<^verbatim>\<open>keys\<close>, \<^verbatim>\<open>get<T>\<close>, \<^verbatim>\<open>getWithDefault<T>\<close> and \<^verbatim>\<open>set<T>\<close>.  A document is a JSON
  value; an object keeps its members in document order, and a member is found by its
  first occurrence.
\<close>

datatype json =
    JNull
  | JBool bool
  | JNumber int
  | JString string
  | JArray "json list"
  | JObject "(string \<times> json) list"

fun json_member :: "json \<Rightarrow> string \<Rightarrow> json option" where
  "json_member (JObject ms) k = map_of ms k"
| "json_member j k = None"

text \<open>Walking a path of keys; every value on the way must be an object holding the next key.\<close>

fun json_at :: "json \<Rightarrow> string list \<Rightarrow> json option" where
  "json_at j [] = Some j"
| "json_at j (k # ks) =
     (case json_member j k of None \<Rightarrow> None | Some c \<Rightarrow> json_at c ks)"

definition json_includes :: "json \<Rightarrow> string list \<Rightarrow> bool" where
  "json_includes j ks = (json_at j ks \<noteq> None)"

fun json_keys :: "json \<Rightarrow> string list" where
  "json_keys (JObject ms) = map fst ms"
| "json_keys j = []"

text \<open>
  The typed reads.  A missing entry raises the key error, a value of another type the
  type error; a null reads as the default of the type asked for.
\<close>

fun json_string :: "json \<Rightarrow> fault + string" where
  "json_string JNull = Inr []"
| "json_string (JString s) = Inr s"
| "json_string j = Inl Data_type_error"

fun json_container :: "json \<Rightarrow> json" where
  "json_container JNull = JObject []"
| "json_container j = j"

fun is_object :: "json \<Rightarrow> bool" where
  "is_object (JObject ms) = True"
| "is_object j = False"

fun json_containers :: "json \<Rightarrow> fault + json list" where
  "json_containers JNull = Inr []"
| "json_containers (JArray js) = (if list_all is_object js then Inr js else Inl Data_type_error)"
| "json_containers j = Inl Data_type_error"

text \<open>\<^verbatim>\<open>get<std::string>(keys)\<close>, \<^verbatim>\<open>get<JsonContainer>(key)\<close>, \<^verbatim>\<open>get<std::vector<JsonContainer>>(key)\<close>\<close>

definition get_string :: "json \<Rightarrow> string list \<Rightarrow> fault + string" where
  "get_string j ks =
     (case json_at j ks of None \<Rightarrow> Inl Data_key_error | Some v \<Rightarrow> json_string v)"

definition get_container :: "json \<Rightarrow> string \<Rightarrow> fault + json" where
  "get_container j k =
     (case json_at j [k] of None \<Rightarrow> Inl Data_key_error | Some v \<Rightarrow> Inr (json_container v))"

definition get_containers :: "json \<Rightarrow> string \<Rightarrow> fault + json list" where
  "get_containers j k =
     (case json_at j [k] of None \<Rightarrow> Inl Data_key_error | Some v \<Rightarrow> json_containers v)"

text \<open>\<^verbatim>\<open>getWithDefault<std::string>(keys, deflt)\<close>: the default only when the entry is missing.\<close>

definition get_string_default :: "json \<Rightarrow> string list \<Rightarrow> string \<Rightarrow> fault + string" where
  "get_string_default j ks deflt =
     (case json_at j ks of None \<Rightarrow> Inr deflt | Some v \<Rightarrow> json_string v)"

text \<open>
  \<^verbatim>\<open>set<T>(keys, value)\<close>: walks the path, creating each missing key as an empty object,
  and stores the value at the end; a value on the way that is not an object raises the
  key error.  A new member goes to the end of its object.
\<close>

fun put_member :: "(string \<times> json) list \<Rightarrow> string \<Rightarrow> json \<Rightarrow> (string \<times> json) list" where
  "put_member [] k v = [(k, v)]"
| "put_member ((k', v') # ms) k v =
     (if k' = k then (k, v) # ms else (k', v') # put_member ms k v)"

fun json_set :: "string list \<Rightarrow> json \<Rightarrow> json \<Rightarrow> fault + json" where
  "json_set [] v j = Inr v"
| "json_set (k # ks) v (JObject ms) =
     (case json_set ks v (case map_of ms k of None \<Rightarrow> JObject [] | Some c \<Rightarrow> c) of
        Inl f \<Rightarrow> Inl f
      | Inr c' \<Rightarrow> Inr (JObject (put_member ms k c')))"
| "json_set (k # ks) v j = Inl Data_key_error"

subsection \<open>The environment of a provider\<close>

text \<open>
  \<^verbatim>\<open>leatherman::execution::result\<close>: what \<^verbatim>\<open>execute\<close> reports of the finished process.
\<close>

record exec_result =
  success :: bool
  exit_code :: int
  output_text :: string
  error_text :: string

text \<open>
  What the provider calls but does not define: running the script
  (\<^verbatim>\<open>exe::execute(path, arguments, input, 0, options)\<close>, with the output trimmed),
  the text of a document (\<^verbatim>\<open>toString\<close>), the document of a text
  (\<^verbatim>\<open>JsonContainer(text)\<close>, \<open>None\<close> when it raises the parse error), and
  \<^verbatim>\<open>value::to_string\<close>, whose definition (value.cc) is not among the sources.
\<close>

record env =
  execute :: "string \<Rightarrow> string list \<Rightarrow> string \<Rightarrow> exec_result"
  json_to_string :: "json \<Rightarrow> string"
  json_parse :: "string \<Rightarrow> json option"
  to_string :: "val \<Rightarrow> string"

text \<open>The decimal text of an integer, as the message formatter prints \<^verbatim>\<open>res.exit_code\<close>.\<close>

fun show_nat :: "nat \<Rightarrow> string" where
  "show_nat n =
     (if n < 10 then [char_of (48 + n)]
      else show_nat (n div 10) @ [char_of (48 + n mod 10)])"

declare show_nat.simps [simp del]

definition show_int :: "int \<Rightarrow> string" where
  "show_int i = (if i < 0 then CHR ''-'' # show_nat (nat (- i)) else show_nat (nat i))"

subsection \<open>Running an action\<close>

text \<open>
  \<^verbatim>\<open>result<json::JsonContainer> json_provider::run_action(action, json)\<close>.
  The messages are the untranslated format strings with their arguments filled in.
\<close>

definition exited :: "string \<Rightarrow> int \<Rightarrow> string" where
  "exited action code = ''action '' @ quoted action @ '' exited with status '' @ show_int code"

definition run_action :: "env \<Rightarrow> provider \<Rightarrow> string \<Rightarrow> json \<Rightarrow> fault + json result" where
  "run_action ev p action j =
     (let inp = json_to_string ev j;
          res = execute ev (path p) [''ral_action='' @ action] inp
      in
        if \<not> success res then
          (if output_text res = [] then
             (if error_text res = [] then
                Inr (Err (Error (exited action (exit_code res))))
              else
                Inr (Err (Error (exited action (exit_code res)
                                 @ ''. stderr was '' @ quoted (error_text res)))))
           else
             (if error_text res = [] then
                Inr (Err (Error (exited action (exit_code res)
                                 @ ''. Output was '' @ quoted (output_text res))))
              else
                Inr (Err (Error (exited action (exit_code res)
                                 @ ''. Output was '' @ quoted (output_text res)
                                 @ ''. stderr was '' @ quoted (error_text res))))))
        else if error_text res \<noteq> [] then
          Inr (Err (Error (''action '' @ quoted action @ '' produced stderr ''
                           @ quoted (error_text res))))
        else
          (case json_parse ev (output_text res) of
             None \<Rightarrow> Inl Data_parse_error
           | Some reslt \<Rightarrow> Inr (Ok reslt)))"

text \<open>
  \<^verbatim>\<open>bool json_provider::contains_error(json, message, kind)\<close>: \<open>message\<close> and \<open>kind\<close>
  are reference parameters, returned beside the boolean.
\<close>

definition contains_error :: "json \<Rightarrow> string \<Rightarrow> string \<Rightarrow> fault + (bool \<times> string \<times> string)" where
  "contains_error j message kind =
     (if json_includes j [''error''] then
        (case get_string_default j [''error'', ''message''] [] of
           Inl f \<Rightarrow> Inl f
         | Inr message' \<Rightarrow>
             (case get_string_default j [''error'', ''kind''] ''failed'' of
                Inl f \<Rightarrow> Inl f
              | Inr kind' \<Rightarrow> Inr (True, message', kind')))
      else Inr (False, message, kind))"

subsection \<open>Resources from documents\<close>

text \<open>
  \<^verbatim>\<open>json_provider::create(name)\<close>: a new resource of that name with no attributes.  The
  resource's pointer to its provider is the provider argument of \<open>update\<close>.
\<close>

definition create :: "string \<Rightarrow> resource" where
  "create nm = \<lparr>name = nm, attrs = fmempty\<rparr>"

text \<open>The loop of \<^verbatim>\<open>resource_from_json\<close> over \<^verbatim>\<open>json.keys()\<close>.\<close>

fun fill_attrs :: "json \<Rightarrow> resource \<Rightarrow> string list \<Rightarrow> fault + resource" where
  "fill_attrs j rsrc [] = Inr rsrc"
| "fill_attrs j rsrc (k # ks) =
     (if k = ''name'' then fill_attrs j rsrc ks
      else
        (case get_string j [k] of
           Inl f \<Rightarrow> Inl f
         | Inr s \<Rightarrow>
             (case resource_assign rsrc k (VString s) of
                Inl f \<Rightarrow> Inl f
              | Inr rsrc' \<Rightarrow> fill_attrs j rsrc' ks)))"

text \<open>\<^verbatim>\<open>result<std::unique_ptr<resource>> json_provider::resource_from_json(json)\<close>\<close>

definition resource_from_json :: "json \<Rightarrow> fault + resource result" where
  "resource_from_json j =
     (if \<not> json_includes j [''name''] then
        Inr (Err (Error ''resource does not have a name''))
      else
        (case get_string j [''name''] of
           Inl f \<Rightarrow> Inl f
         | Inr nm \<Rightarrow>
             (case fill_attrs j (create nm) (json_keys j) of
                Inl f \<Rightarrow> Inl f
              | Inr rsrc \<Rightarrow> Inr (Ok rsrc))))"

subsection \<open>Logging\<close>

text \<open>\<^verbatim>\<open>LOG_ERROR\<close> and \<^verbatim>\<open>LOG_WARNING\<close> append a line to the log; they never change control flow.\<close>

datatype log_level = Log_warning | Log_error

type_synonym log = "(log_level \<times> string) list"

definition provider_msg :: "provider \<Rightarrow> string \<Rightarrow> string" where
  "provider_msg p text = ''provider['' @ path p @ '']: '' @ text"

subsection \<open>update\<close>

text \<open>
  The request of \<^verbatim>\<open>json_resource::update\<close>: \<^verbatim>\<open>ral.noop\<close>, \<^verbatim>\<open>resource.name\<close> and, for
  every entry of \<open>should\<close> in the order of the map, \<^verbatim>\<open>resource.<key>\<close> as a string.
\<close>

fun set_attrs :: "env \<Rightarrow> json \<Rightarrow> (string \<times> val) list \<Rightarrow> fault + json" where
  "set_attrs ev inp [] = Inr inp"
| "set_attrs ev inp (k # ks) =
     (case json_set [''resource'', fst k] (JString (to_string ev (snd k))) inp of
        Inl f \<Rightarrow> Inl f
      | Inr inp' \<Rightarrow> set_attrs ev inp' ks)"

definition update_request :: "env \<Rightarrow> resource \<Rightarrow> attr_map \<Rightarrow> fault + json" where
  "update_request ev r should =
     (case json_set [''ral'', ''noop''] (JBool False) (JObject []) of
        Inl f \<Rightarrow> Inl f
      | Inr inp1 \<Rightarrow>
          (case json_set [''resource'', ''name''] (JString (name r)) inp1 of
             Inl f \<Rightarrow> Inl f
           | Inr inp2 \<Rightarrow> set_attrs ev inp2 (sorted_list_of_fmap should)))"

text \<open>
  The loop over \<^verbatim>\<open>json_chgs.keys()\<close>: \<open>chgs\<close> is the change set inside the result
  under construction; an error return discards it.
\<close>

fun read_changes :: "json \<Rightarrow> string list \<Rightarrow> changes \<Rightarrow> fault + changes result" where
  "read_changes json_chgs [] chgs = Inr (Ok chgs)"
| "read_changes json_chgs (k # ks) chgs =
     (if \<not> json_includes json_chgs [k, ''is''] then
        Inr (Err (Error (''malformed change: entry for '' @ k @ '' does not contain ''
                         @ quoted ''is'')))
      else if \<not> json_includes json_chgs [k, ''was''] then
        Inr (Err (Error (''malformed change: entry for '' @ k @ '' does not contain ''
                         @ quoted ''was'')))
      else
        (case get_string json_chgs [k, ''is''] of
           Inl f \<Rightarrow> Inl f
         | Inr i \<Rightarrow>
             (case get_string json_chgs [k, ''was''] of
                Inl f \<Rightarrow> Inl f
              | Inr w \<Rightarrow> read_changes json_chgs ks (add chgs k (VString i) (VString w)))))"

text \<open>
  The last loop of \<^verbatim>\<open>update\<close>, over the entries of \<open>should\<close>: the resource when the
  loop stopped, and the exception that stopped it, if any.
\<close>

fun store_should :: "resource \<Rightarrow> (string \<times> val) list \<Rightarrow> resource \<times> fault option" where
  "store_should r [] = (r, None)"
| "store_should r (s # ss) =
     (if fst s \<noteq> ''name'' then
        (case resource_assign r (fst s) (snd s) of
           Inl f \<Rightarrow> (r, Some f)
         | Inr r' \<Rightarrow> store_should r' ss)
      else store_should r ss)"

text \<open>
  \<^verbatim>\<open>result<changes> json_provider::json_resource::update(const attr_map &should)\<close>:
  the resource afterwards, the lines logged, and the exception or the result.
  \<^verbatim>\<open>result<changes> res\<close> starts as an ok result holding an empty change set.
\<close>

definition update ::
  "env \<Rightarrow> provider \<Rightarrow> resource \<Rightarrow> attr_map \<Rightarrow> resource \<times> log \<times> (fault + changes result)" where
  "update ev p r should =
     (case update_request ev r should of
        Inl f \<Rightarrow> (r, [], Inl f)
      | Inr inp \<Rightarrow>
          (case run_action ev p ''update'' inp of
             Inl f \<Rightarrow> (r, [], Inl f)
           | Inr (Err e) \<Rightarrow> (r, [(Log_error, provider_msg p (detail e))], Inr (Err e))
           | Inr (Ok out) \<Rightarrow>
               (case contains_error out [] [] of
                  Inl f \<Rightarrow> (r, [], Inl f)
                | Inr ce \<Rightarrow>
                    if fst ce then
                      (r, [], Inr (Err (Error (''update failed: '' @ fst (snd ce)))))
                    else if \<not> json_includes out [''changes''] then
                      (r, [], Inr (Ok []))
                    else
                      (case get_container out ''changes'' of
                         Inl f \<Rightarrow> (r, [], Inl f)
                       | Inr json_chgs \<Rightarrow>
                           (case read_changes json_chgs (json_keys json_chgs) [] of
                              Inl f \<Rightarrow> (r, [], Inl f)
                            | Inr (Err e) \<Rightarrow> (r, [], Inr (Err e))
                            | Inr (Ok chgs) \<Rightarrow>
                                (case store_should r (sorted_list_of_fmap should) of
                                   (r', Some f) \<Rightarrow> (r', [], Inl f)
                                 | (r', None) \<Rightarrow> (r', [], Inr (Ok chgs))))))))"

subsection \<open>find\<close>

text \<open>
  \<^verbatim>\<open>boost::optional<std::unique_ptr<resource>> json_provider::find(const std::string &name)\<close>:
  the lines logged, and the exception or the optional resource.
\<close>

definition json_find :: "env \<Rightarrow> provider \<Rightarrow> string \<Rightarrow> log \<times> (fault + resource option)" where
  "json_find ev p nm =
     (case json_set [''resource'', ''name''] (JString nm) (JObject []) of
        Inl f \<Rightarrow> ([], Inl f)
      | Inr inp \<Rightarrow>
          (case run_action ev p ''find'' inp of
             Inl f \<Rightarrow> ([], Inl f)
           | Inr (Err e) \<Rightarrow> ([(Log_error, provider_msg p (detail e))], Inr None)
           | Inr (Ok out) \<Rightarrow>
               (case contains_error out [] [] of
                  Inl f \<Rightarrow> ([], Inl f)
                | Inr ce \<Rightarrow>
                    if fst ce then
                      (if snd (snd ce) = ''unknown'' then ([], Inr None)
                       else
                         ([(Log_warning,
                            provider_msg p (''find for name '' @ quoted nm
                                            @ '' failed with error '' @ fst (snd ce)))],
                          Inr None))
                    else
                      (case get_container out ''resource'' of
                         Inl f \<Rightarrow> ([], Inl f)
                       | Inr json_rsrc \<Rightarrow>
                           (case resource_from_json json_rsrc of
                              Inl f \<Rightarrow> ([], Inl f)
                            | Inr (Err e) \<Rightarrow>
                                ([(Log_error,
                                   provider_msg p (''find of '' @ quoted nm @ '': '' @ detail e))],
                                 Inr None)
                            | Inr (Ok rsrc) \<Rightarrow>
                                if name rsrc \<noteq> nm then
                                  ([(Log_error,
                                     provider_msg p (''find of name '' @ quoted nm
                                                     @ '' returned resource named ''
                                                     @ quoted (name rsrc)))],
                                   Inr None)
                                else ([], Inr (Some rsrc)))))))"

subsection \<open>instances\<close>

text \<open>The loop of \<^verbatim>\<open>instances\<close> over the documents under \<^verbatim>\<open>resources\<close>; \<open>result\<close> is the vector built so far.\<close>

fun convert_all :: "provider \<Rightarrow> json list \<Rightarrow> resource list \<Rightarrow> log \<times> (fault + resource list)" where
  "convert_all p [] result = ([], Inr result)"
| "convert_all p (json_rsrc # json_rsrcs) result =
     (case resource_from_json json_rsrc of
        Inl f \<Rightarrow> ([], Inl f)
      | Inr (Err e) \<Rightarrow>
          ([(Log_error, provider_msg p (''list failed: '' @ detail e))], Inr result)
      | Inr (Ok rsrc) \<Rightarrow> convert_all p json_rsrcs (result @ [rsrc]))"

text \<open>\<^verbatim>\<open>std::vector<std::unique_ptr<resource>> json_provider::instances()\<close>\<close>

definition instances :: "env \<Rightarrow> provider \<Rightarrow> log \<times> (fault + resource list)" where
  "instances ev p =
     (case run_action ev p ''list'' (JObject []) of
        Inl f \<Rightarrow> ([], Inl f)
      | Inr (Err e) \<Rightarrow> ([(Log_error, provider_msg p (detail e))], Inr [])
      | Inr (Ok out) \<Rightarrow>
          (case contains_error out [] [] of
             Inl f \<Rightarrow> ([], Inl f)
           | Inr ce \<Rightarrow>
               if fst ce then
                 ([(Log_error, provider_msg p (''list failed with error '' @ fst (snd ce)))],
                  Inr [])
               else if \<not> json_includes out [''resources''] then
                 ([(Log_error,
                    provider_msg p (''list did not produce a '' @ quoted ''resources''
                                    @ '' entry''))],
                  Inr [])
               else
                 (case get_containers out ''resources'' of
                    Inl f \<Rightarrow> ([], Inl f)
                  | Inr json_rsrcs \<Rightarrow> convert_all p json_rsrcs [])))"

subsection \<open>A scripted backend\<close>

text \<open>
  For the examples: an environment whose script ignores its input and always finishes
  with the result \<open>res\<close>, and whose output text parses to \<open>doc\<close>.
\<close>

definition scripted :: "exec_result \<Rightarrow> json option \<Rightarrow> env" where
  "scripted res doc =
     \<lparr>execute = (\<lambda>file arguments inp. res),
      json_to_string = (\<lambda>j. []),
      json_parse = (\<lambda>text. doc),
      to_string = (\<lambda>v. case as_string v of Some s \<Rightarrow> s | None \<Rightarrow> [])\<rparr>"

definition exit0 :: "string \<Rightarrow> exec_result" where
  "exit0 text = \<lparr>success = True, exit_code = 0, output_text = text, error_text = []\<rparr>"

definition the_provider :: provider where
  "the_provider = \<lparr>path = ''/usr/lib/ral/provider'', spec = None\<rparr>"

definition script_exit :: "bool \<Rightarrow> int \<Rightarrow> string \<Rightarrow> string \<Rightarrow> env" where
  "script_exit ok code out err =
     scripted \<lparr>success = ok, exit_code = code, output_text = out, error_text = err\<rparr> None"

definition backend :: "json \<Rightarrow> env" where
  "backend doc = scripted (exit0 ''(reply)'') (Some doc)"

text \<open>A spec with the single string attribute \<open>ensure\<close>.\<close>

definition string_attr :: attr_spec where
  "string_attr = \<lparr>read_string = (\<lambda>text. Ok (VString text))\<rparr>"

definition ensure_spec :: prov_spec where
  "ensure_spec = \<lparr>attr_of = (\<lambda>nm. if nm = ''ensure'' then Some string_attr else None)\<rparr>"

text \<open>Desired attributes, the request they give for the resource \<open>sshd\<close>, and replies to it.\<close>

definition ensure_present :: attr_map where
  "ensure_present = fmupd ''ensure'' (VString ''present'') fmempty"

definition sshd_request :: json where
  "sshd_request =
     JObject [(''ral'', JObject [(''noop'', JBool False)]),
              (''resource'', JObject [(''name'', JString ''sshd''),
                                      (''ensure'', JString ''present'')])]"

definition changes_doc :: json where
  "changes_doc =
     JObject [(''changes'',
       JObject [(''ensure'', JObject [(''is'', JString ''present''),
                                      (''was'', JString ''absent'')])])]"

definition no_was_changes :: json where
  "no_was_changes =
     JObject [(''ensure'', JObject [(''is'', JString ''present''), (''was'', JString ''absent'')]),
              (''mode'', JObject [(''is'', JString ''0644'')])]"

definition no_was_doc :: json where
  "no_was_doc = JObject [(''changes'', no_was_changes)]"

definition mistyped_doc :: json where
  "mistyped_doc =
     JObject [(''changes'',
       JObject [(''a'', JObject [(''is'', JNumber 1), (''was'', JString ''x'')]),
                (''b'', JObject [])])]"

definition list_doc :: json where
  "list_doc =
     JObject [(''resources'',
       JArray [JObject [(''name'', JString ''a'')],
               JObject [(''x'', JString ''1'')],
               JObject [(''name'', JString ''c'')]])]"

definition unknown_doc :: json where
  "unknown_doc = JObject [(''error'', JObject [(''kind'', JString ''unknown'')])]"

definition mistyped_error_doc :: json where
  "mistyped_error_doc = JObject [(''error'', JObject [(''message'', JNumber 5)])]"

definition mistyped_resource_doc :: json where
  "mistyped_resource_doc =
     JObject [(''resource'', JObject [(''name'', JString ''sshd''), (''ensure'', JNumber 1)])]"

section \<open>Properties of attribute maps and resources\<close>

text \<open>
  C8: for every attribute map \<open>m\<close> and every key \<open>k\<close> not present in \<open>m\<close>, the read
  accessor \<open>m[k]\<close> returns the absent value (its result type has no error), and the typed
  lookup \<open>m.lookup<T>(k, default)\<close> returns the supplied default, for every payload
  type \<open>T\<close> (every projection \<open>as\<close> into every type \<open>'t\<close>).
\<close>

theorem attr_map_missing_key:
  assumes "fmlookup m k = None"
  shows "attr_map_get m k = VNone \<and> lookup as m k deflt = deflt"
  using assms by (simp add: attr_map_get_def lookup_def)

theorem attr_map_missing_key_witness:
  "fmlookup (fmupd ''ensure'' (VString ''present'') fmempty) ''mode'' = None
   \<and> attr_map_get (fmupd ''ensure'' (VString ''present'') fmempty) ''mode'' = VNone
   \<and> lookup as_string (fmupd ''ensure'' (VString ''present'') fmempty) ''mode'' ''0644'' = ''0644''"
proof -
  have h: "fmlookup (fmupd ''ensure'' (VString ''present'') fmempty) ''mode'' = None"
    by simp
  show ?thesis
    using h attr_map_missing_key [OF h, of as_string "''0644''"] by simp
qed


text \<open>
  C7: for every resource, the read accessor and the write accessor \<^verbatim>\<open>operator[]\<close> called
  with the identity key \<open>name\<close> raise \<^verbatim>\<open>std::invalid_argument\<close>, a fault and not an
  error result: the read returns no value, the reference is never handed out, and
  nothing is stored.
\<close>

theorem name_access_is_contract_violation:
  "resource_get r ''name'' = Inl (Invalid_argument name_access_msg)
   \<and> resource_index r ''name'' = Inl (Invalid_argument name_access_msg)
   \<and> resource_assign r ''name'' v = Inl (Invalid_argument name_access_msg)"
  by (simp add: resource_get_def resource_index_def resource_assign_def is_name_def)

theorem name_access_is_contract_violation_witness:
  "resource_get (create ''sshd'') ''name'' = Inl (Invalid_argument name_access_msg)
   \<and> resource_index (create ''sshd'') ''name'' = Inl (Invalid_argument name_access_msg)
   \<and> resource_assign (create ''sshd'') ''name'' (VString ''cron'')
       = Inl (Invalid_argument name_access_msg)"
  using name_access_is_contract_violation [of "create ''sshd''" "VString ''cron''"] by simp

lemma attr_map_assign_fmupd: "attr_map_assign m k v = fmupd k v m"
  by (rule fmap_ext) (simp add: attr_map_assign_def attr_map_index_def split: option.splits)

lemma resource_assign_other:
  "k \<noteq> ''name'' \<Longrightarrow> resource_assign r k v = Inr (r\<lparr>attrs := fmupd k v (attrs r)\<rparr>)"
  by (simp add: resource_assign_def is_name_def attr_map_assign_fmupd)

lemma resource_index_present:
  "attr_map_get (attrs r) k = VString x \<Longrightarrow> k \<noteq> ''name'' \<Longrightarrow>
   resource_index r k = Inr (r, VString x)"
  by (auto simp: resource_index_def attr_map_index_def attr_map_get_def is_name_def
           split: option.splits)

text \<open>
  C1, as the code has it: for every resource whose current attribute \<open>a\<close> is the string
  \<open>x\<close>, every desired map whose \<open>a\<close> is a different string \<open>y\<close>, and the property list
  \<open>[a]\<close>, \<open>check\<close> appends exactly one change for \<open>a\<close>, whose \<open>is\<close> field is the desired
  value \<open>y\<close> and whose \<open>was\<close> field is the current value \<open>x\<close>, and leaves the resource
  as it was; when the desired map has \<open>a\<close> absent, \<open>check\<close> appends nothing.
\<close>

theorem check_single_property:
  "(attr_map_get (attrs r) ''a'' = VString x \<and> attr_map_get should ''a'' = VString y \<and> x \<noteq> y
      \<longrightarrow> check r chgs should [''a'']
           = ((r, chgs @ [Change ''a'' (VString y) (VString x)]), None))
   \<and> (attr_map_get should ''a'' = VNone \<longrightarrow> check r chgs should [''a''] = ((r, chgs), None))"
  by (simp add: resource_index_present is_present_def add_def)

theorem check_single_property_witness:
  "attr_map_get (fmupd ''a'' (VString ''x'') fmempty) ''a'' = VString ''x''
   \<and> attr_map_get (fmupd ''a'' (VString ''y'') fmempty) ''a'' = VString ''y''
   \<and> check \<lparr>name = ''r'', attrs = fmupd ''a'' (VString ''x'') fmempty\<rparr> []
        (fmupd ''a'' (VString ''y'') fmempty) [''a'']
      = ((\<lparr>name = ''r'', attrs = fmupd ''a'' (VString ''x'') fmempty\<rparr>,
          [Change ''a'' (VString ''y'') (VString ''x'')]), None)
   \<and> attr_map_get fmempty ''a'' = VNone
   \<and> check \<lparr>name = ''r'', attrs = fmupd ''a'' (VString ''x'') fmempty\<rparr> [] fmempty [''a'']
      = ((\<lparr>name = ''r'', attrs = fmupd ''a'' (VString ''x'') fmempty\<rparr>, []), None)"
  using
    check_single_property [of "\<lparr>name = ''r'', attrs = fmupd ''a'' (VString ''x'') fmempty\<rparr>"
      "''x''" "fmupd ''a'' (VString ''y'') fmempty" "''y''" "[]"]
    check_single_property [of "\<lparr>name = ''r'', attrs = fmupd ''a'' (VString ''x'') fmempty\<rparr>"
      "''x''" fmempty "''y''" "[]"]
  by (simp add: attr_map_get_def)

text \<open>
  C1 as the claim words it fails: with current \<open>a = x\<close> and desired \<open>a = y\<close> the change
  set is not the single change with \<open>is = x\<close> and \<open>was = y\<close>.
\<close>

theorem check_is_was_counterexample:
  "snd (fst (check \<lparr>name = ''r'', attrs = fmupd ''a'' (VString ''x'') fmempty\<rparr> []
                   (fmupd ''a'' (VString ''y'') fmempty) [''a'']))
   \<noteq> [Change ''a'' (VString ''x'') (VString ''y'')]"
  by (simp add: resource_index_def attr_map_index_def attr_map_get_def is_name_def
                is_present_def add_def)


section \<open>Properties of providers\<close>

text \<open>
  C9: \<open>parse\<close> returns the internal error whenever the provider's spec has not been
  initialized, also after a \<open>prepare\<close> whose \<open>describe\<close> failed; with a spec, it returns
  an error whenever the name is not an attribute of the spec; only otherwise does it
  delegate to \<open>read_string\<close> of the attribute's entry.  A \<open>prepare\<close> whose \<open>describe\<close>
  succeeded stores the spec.
\<close>

theorem parse_needs_spec_and_attribute:
  "(spec p = None \<longrightarrow>
      parse p nm v = Err (Error ''internal error: spec was not initialized'')
      \<and> parse (fst (prepare (Err e) p)) nm v
          = Err (Error ''internal error: spec was not initialized''))
   \<and> (spec p = Some sp \<and> attr_of sp nm = None \<longrightarrow>
        parse p nm v = Err (Error (''there is no attribute '' @ [CHR 0x27] @ nm @ [CHR 0x27])))
   \<and> (spec p = Some sp \<and> attr_of sp nm = Some a \<longrightarrow> parse p nm v = read_string a v)
   \<and> spec (fst (prepare (Ok sp) p)) = Some sp"
  by (simp add: parse_def prepare_def quoted_def)

theorem parse_needs_spec_and_attribute_witness:
  "spec the_provider = None
   \<and> parse the_provider ''ensure'' ''present''
       = Err (Error ''internal error: spec was not initialized'')
   \<and> parse (fst (prepare (Err (Error ''no metadata'')) the_provider)) ''ensure'' ''present''
       = Err (Error ''internal error: spec was not initialized'')
   \<and> attr_of ensure_spec ''mode'' = None
   \<and> parse (fst (prepare (Ok ensure_spec) the_provider)) ''mode'' ''0644''
       = Err (Error (''there is no attribute '' @ [CHR 0x27] @ ''mode'' @ [CHR 0x27]))
   \<and> attr_of ensure_spec ''ensure'' = Some string_attr
   \<and> parse (fst (prepare (Ok ensure_spec) the_provider)) ''ensure'' ''present''
       = Ok (VString ''present'')"
  using
    parse_needs_spec_and_attribute [of the_provider "''ensure''" "''present''"
      "Error ''no metadata''" ensure_spec string_attr]
    parse_needs_spec_and_attribute [of "fst (prepare (Ok ensure_spec) the_provider)" "''mode''"
      "''0644''" "Error ''no metadata''" ensure_spec string_attr]
    parse_needs_spec_and_attribute [of "fst (prepare (Ok ensure_spec) the_provider)" "''ensure''"
      "''present''" "Error ''no metadata''" ensure_spec string_attr]
  by (simp add: the_provider_def ensure_spec_def string_attr_def prepare_def)

section \<open>Properties of the external-process provider\<close>

subsection \<open>run_action\<close>



subsection \<open>update: the request, the last loop\<close>

lemma map_of_put_member: "map_of (put_member ms k v) = (map_of ms)(k \<mapsto> v)"
  by (induction ms) auto

lemma set_attrs_total:
  "map_of ms ''resource'' = Some (JObject rs) \<Longrightarrow> \<exists>inp. set_attrs ev (JObject ms) ks = Inr inp"
proof (induction ks arbitrary: ms rs)
  case Nil
  then show ?case by simp
next
  case (Cons k ks)
  let ?rs' = "put_member rs (fst k) (JString (to_string ev (snd k)))"
  have "map_of (put_member ms ''resource'' (JObject ?rs')) ''resource'' = Some (JObject ?rs')"
    by (simp add: map_of_put_member)
  from Cons.IH [OF this] show ?case
    using Cons.prems by simp
qed

text \<open>Building the request never raises: the path \<open>resource\<close> always leads to an object.\<close>

lemma update_request_total: "\<exists>inp. update_request ev r should = Inr inp"
  unfolding update_request_def
  using set_attrs_total [of
      "[(''ral'', JObject [(''noop'', JBool False)]),
        (''resource'', JObject [(''name'', JString (name r))])]"
      "[(''name'', JString (name r))]" ev "sorted_list_of_fmap should"]
  by simp

lemma store_should_no_fault: "snd (store_should r ss) = None"
  by (induction ss arbitrary: r) (simp_all add: resource_assign_other)

lemma store_should_name: "name (fst (store_should r ss)) = name r"
  by (induction ss arbitrary: r) (simp_all add: resource_assign_other)

lemma store_should_lookup:
  "distinct (map fst ss) \<Longrightarrow>
   fmlookup (attrs (fst (store_should r ss))) k =
     (if k \<noteq> ''name'' \<and> k \<in> fst ` set ss then map_of ss k else fmlookup (attrs r) k)"
proof (induction ss arbitrary: r)
  case Nil
  then show ?case by simp
next
  case (Cons s ss)
  obtain a b where s: "s = (a, b)" by (cases s)
  from Cons.prems have d: "distinct (map fst ss)" and na: "a \<notin> fst ` set ss"
    by (simp_all add: s)
  show ?case
  proof (cases "a = ''name''")
    case True
    then show ?thesis using Cons.IH [OF d, of r] na by (auto simp: s)
  next
    case False
    then show ?thesis
      using Cons.IH [OF d, of "r\<lparr>attrs := fmupd a b (attrs r)\<rparr>"] na
      by (auto simp: s resource_assign_other)
  qed
qed

lemma distinct_sorted_list_of_fmap: "distinct (map fst (sorted_list_of_fmap m))"
  by (simp add: sorted_list_of_fmap_def comp_def sorted_list_of_fset.rep_eq)

lemma fst_set_sorted_list_of_fmap: "fst ` set (sorted_list_of_fmap m) = fset (fmdom m)"
  by (simp add: sorted_list_of_fmap_def image_image sorted_list_of_fset.rep_eq)

lemma store_should_fmap:
  "fmlookup (attrs (fst (store_should r (sorted_list_of_fmap should)))) k =
     (if k \<noteq> ''name'' \<and> fmlookup should k \<noteq> None then fmlookup should k
      else fmlookup (attrs r) k)"
  using store_should_lookup [OF distinct_sorted_list_of_fmap, of r should k]
  by (auto simp: fst_set_sorted_list_of_fmap fmdom_notI dest: fmdom_notD)

lemma contains_error_none:
  "\<not> json_includes out [''error''] \<Longrightarrow> contains_error out m k = Inr (False, m, k)"
  by (simp add: contains_error_def)

lemma get_container_total: "json_includes out [k] \<Longrightarrow> \<exists>c. get_container out k = Inr c"
  by (auto simp: json_includes_def get_container_def split: option.splits)

lemma get_string_includes: "get_string j ks = Inr s \<Longrightarrow> json_includes j ks"
  by (auto simp: get_string_def json_includes_def split: option.splits)

text \<open>\<open>update\<close> once the reply is a document with no error envelope and with \<open>changes\<close>.\<close>

lemma update_with_changes:
  assumes "update_request ev r should = Inr inp"
    and "run_action ev p ''update'' inp = Inr (Ok out)"
    and "contains_error out [] [] = Inr (False, m, k)"
    and "json_includes out [''changes'']"
    and "get_container out ''changes'' = Inr json_chgs"
  shows "update ev p r should =
     (case read_changes json_chgs (json_keys json_chgs) [] of
        Inl f \<Rightarrow> (r, [], Inl f)
      | Inr (Err e) \<Rightarrow> (r, [], Inr (Err e))
      | Inr (Ok chgs) \<Rightarrow> (fst (store_should r (sorted_list_of_fmap should)), [], Inr (Ok chgs)))"
  using assms store_should_no_fault [of r "sorted_list_of_fmap should"]
  by (auto simp: update_def split: sum.splits result.splits prod.splits option.splits)


subsection \<open>update: failure leaves the resource alone\<close>

text \<open>
  C10: \<open>update\<close> is atomic on failure.  For every execution in which \<open>update\<close> returns an
  error (the invocation failed, the reply carried an error envelope, or an entry of
  \<open>changes\<close> was malformed), and also for every execution that ends in an exception,
  the resource, hence its attribute map, is exactly as it was before the call: the
  desired attributes are written only after every change entry has been accepted.
\<close>

theorem update_error_leaves_resource:
  "(snd (snd (update ev p r should)) = Inr (Err e) \<longrightarrow> fst (update ev p r should) = r)
   \<and> (snd (snd (update ev p r should)) = Inl f \<longrightarrow> fst (update ev p r should) = r)"
  using store_should_no_fault [of r "sorted_list_of_fmap should"]
  by (auto simp: update_def split: sum.splits result.splits prod.splits option.splits if_splits)

theorem update_error_leaves_resource_witness:
  "snd (snd (update (backend no_was_doc) the_provider (create ''sshd'') ensure_present))
     = Inr (Err (Error (''malformed change: entry for mode does not contain '' @ [CHR 0x27] @ ''was'' @ [CHR 0x27])))
   \<and> fst (update (backend no_was_doc) the_provider (create ''sshd'') ensure_present)
     = create ''sshd''
   \<and> snd (snd (update (backend mistyped_doc) the_provider (create ''sshd'') ensure_present))
     = Inl Data_type_error
   \<and> fst (update (backend mistyped_doc) the_provider (create ''sshd'') ensure_present)
     = create ''sshd''"
proof -
  have h1: "snd (snd (update (backend no_was_doc) the_provider (create ''sshd'') ensure_present))
     = Inr (Err (Error (''malformed change: entry for mode does not contain '' @ [CHR 0x27] @ ''was'' @ [CHR 0x27])))"
    by code_simp
  have h2: "snd (snd (update (backend mistyped_doc) the_provider (create ''sshd'') ensure_present))
     = Inl Data_type_error"
    by code_simp
  show ?thesis
    using h1 h2
      update_error_leaves_resource [of "backend no_was_doc" the_provider "create ''sshd''"
        ensure_present
        "Error (''malformed change: entry for mode does not contain '' @ [CHR 0x27] @ ''was'' @ [CHR 0x27])"
        Data_type_error]
      update_error_leaves_resource [of "backend mistyped_doc" the_provider "create ''sshd''"
        ensure_present "Error []" Data_type_error]
    by simp
qed

subsection \<open>update: what a successful update stores\<close>

text \<open>
  C5, as the code has it: for every \<open>update\<close> that returns ok on a reply that has a
  \<open>changes\<close> member, the resource's attribute map afterwards holds, for every attribute
  of \<open>should\<close> except the identity attribute \<open>name\<close>, the desired value from \<open>should\<close>;
  the entry of the map under \<open>name\<close> is what it was before (the identity attribute is
  never written).
\<close>

theorem update_ok_stores_should:
  assumes "update_request ev r should = Inr inp"
    and "run_action ev p ''update'' inp = Inr (Ok out)"
    and "json_includes out [''changes'']"
    and "snd (snd (update ev p r should)) = Inr (Ok chgs)"
  shows "(\<forall>k v. k \<noteq> ''name'' \<and> fmlookup should k = Some v
            \<longrightarrow> fmlookup (attrs (fst (update ev p r should))) k = Some v)
       \<and> fmlookup (attrs (fst (update ev p r should))) ''name'' = fmlookup (attrs r) ''name''"
proof -
  from assms(4) obtain ce where ce: "contains_error out [] [] = Inr ce" and nce: "\<not> fst ce"
    using assms(1,2)
    by (auto simp: update_def split: sum.splits result.splits if_splits)
  obtain json_chgs where jc: "get_container out ''changes'' = Inr json_chgs"
    using get_container_total [OF assms(3)] by blast
  have ce': "contains_error out [] [] = Inr (False, fst (snd ce), snd (snd ce))"
    using ce nce by (cases ce) simp
  note u = update_with_changes [OF assms(1,2) ce' assms(3) jc]
  from assms(4)
  have "fst (update ev p r should) = fst (store_should r (sorted_list_of_fmap should))"
    unfolding u by (auto split: sum.splits result.splits)
  then show ?thesis
    by (simp add: store_should_fmap)
qed

theorem update_ok_stores_should_witness:
  "snd (snd (update (backend changes_doc) the_provider (create ''sshd'')
              (fmupd ''name'' (VString ''cron'') ensure_present)))
     = Inr (Ok [Change ''ensure'' (VString ''present'') (VString ''absent'')])
   \<and> fmlookup (attrs (fst (update (backend changes_doc) the_provider (create ''sshd'')
                              (fmupd ''name'' (VString ''cron'') ensure_present)))) ''ensure''
     = Some (VString ''present'')
   \<and> fmlookup (attrs (fst (update (backend changes_doc) the_provider (create ''sshd'')
                              (fmupd ''name'' (VString ''cron'') ensure_present)))) ''name''
     = None"
proof -
  let ?should = "fmupd ''name'' (VString ''cron'') ensure_present"
  let ?inp = "JObject [(''ral'', JObject [(''noop'', JBool False)]),
       (''resource'', JObject [(''name'', JString ''cron''), (''ensure'', JString ''present'')])]"
  have h1: "update_request (backend changes_doc) (create ''sshd'') ?should = Inr ?inp"
    by code_simp
  have h2: "run_action (backend changes_doc) the_provider ''update'' ?inp = Inr (Ok changes_doc)"
    by code_simp
  have h3: "json_includes changes_doc [''changes'']"
    by code_simp
  have h4: "snd (snd (update (backend changes_doc) the_provider (create ''sshd'') ?should))
     = Inr (Ok [Change ''ensure'' (VString ''present'') (VString ''absent'')])"
    by code_simp
  have h5: "fmlookup ?should ''ensure'' = Some (VString ''present'')"
    by (simp add: ensure_present_def)
  show ?thesis
    using update_ok_stores_should [OF h1 h2 h3 h4] h4 h5
    by (simp add: create_def)
qed

text \<open>
  C5 as the claim words it fails: on a reply with no \<open>changes\<close> member \<open>update\<close> returns
  ok with an empty change set before the loop that stores \<open>should\<close>, and the desired
  \<open>ensure\<close> is not in the resource's map afterwards.
\<close>

theorem update_ok_without_changes_counterexample:
  "snd (snd (update (backend (JObject [])) the_provider (create ''sshd'') ensure_present))
     = Inr (Ok [])
   \<and> fmlookup ensure_present ''ensure'' = Some (VString ''present'')
   \<and> fmlookup (attrs (fst (update (backend (JObject [])) the_provider (create ''sshd'')
                              ensure_present))) ''ensure''
     = None"
  by code_simp

subsection \<open>update: the reply's changes\<close>

lemma read_changes_first_malformed:
  assumes "\<forall>k'\<in>set ks. \<exists>i w. get_string jc [k', ''is''] = Inr i
                             \<and> get_string jc [k', ''was''] = Inr w"
    and "\<not> json_includes jc [k, ''is''] \<or> \<not> json_includes jc [k, ''was'']"
  shows "read_changes jc (ks @ k # ks') chgs =
         Inr (Err (Error (''malformed change: entry for '' @ k @ '' does not contain ''
               @ [CHR 0x27] @ (if \<not> json_includes jc [k, ''is''] then ''is'' else ''was'') @ [CHR 0x27])))"
  using assms
proof (induction ks arbitrary: chgs)
  case Nil
  then show ?case by (auto simp: quoted_def)
next
  case (Cons a ks)
  from Cons.prems(1) obtain i w where
    iw: "get_string jc [a, ''is''] = Inr i" "get_string jc [a, ''was''] = Inr w"
    by auto
  have inc: "json_includes jc [a, ''is'']" "json_includes jc [a, ''was'']"
    using iw by (auto dest: get_string_includes)
  have rest: "\<forall>k'\<in>set ks. \<exists>i w. get_string jc [k', ''is''] = Inr i
                                \<and> get_string jc [k', ''was''] = Inr w"
    using Cons.prems(1) by simp
  show ?case
    using Cons.IH [OF rest Cons.prems(2)] iw inc by simp
qed

text \<open>
  C4, as the code has it: let the reply of an \<open>update\<close> be a document with no error
  envelope.  If the document has no \<open>changes\<close> member, the result is ok with an empty
  change set.  If some entry under \<open>changes\<close> lacks an \<open>is\<close> or a \<open>was\<close> field, \<open>k\<close> is
  the first such entry, and the \<open>is\<close> and \<open>was\<close> of every entry listed before \<open>k\<close> read
  as strings, the result is an error that names \<open>k\<close> and the field it lacks.
\<close>

theorem update_reply_changes:
  assumes "update_request ev r should = Inr inp"
    and "run_action ev p ''update'' inp = Inr (Ok out)"
    and "\<not> json_includes out [''error'']"
  shows "(\<not> json_includes out [''changes'']
            \<longrightarrow> snd (snd (update ev p r should)) = Inr (Ok []))
       \<and> (get_container out ''changes'' = Inr json_chgs
          \<and> json_keys json_chgs = ks @ k # ks'
          \<and> (\<forall>k'\<in>set ks. \<exists>i w. get_string json_chgs [k', ''is''] = Inr i
                                \<and> get_string json_chgs [k', ''was''] = Inr w)
          \<and> (\<not> json_includes json_chgs [k, ''is''] \<or> \<not> json_includes json_chgs [k, ''was''])
            \<longrightarrow> snd (snd (update ev p r should))
                = Inr (Err (Error (''malformed change: entry for '' @ k
                    @ '' does not contain ''
                    @ [CHR 0x27] @ (if \<not> json_includes json_chgs [k, ''is''] then ''is''
                              else ''was'') @ [CHR 0x27]))))"
proof (intro conjI impI)
  assume "\<not> json_includes out [''changes'']"
  then show "snd (snd (update ev p r should)) = Inr (Ok [])"
    using assms by (simp add: update_def contains_error_none)
next
  assume h: "get_container out ''changes'' = Inr json_chgs
          \<and> json_keys json_chgs = ks @ k # ks'
          \<and> (\<forall>k'\<in>set ks. \<exists>i w. get_string json_chgs [k', ''is''] = Inr i
                                \<and> get_string json_chgs [k', ''was''] = Inr w)
          \<and> (\<not> json_includes json_chgs [k, ''is''] \<or> \<not> json_includes json_chgs [k, ''was''])"
  then have inc: "json_includes out [''changes'']"
    by (auto simp: get_container_def json_includes_def split: option.splits)
  have rc: "read_changes json_chgs (json_keys json_chgs) [] =
         Inr (Err (Error (''malformed change: entry for '' @ k @ '' does not contain ''
               @ [CHR 0x27] @ (if \<not> json_includes json_chgs [k, ''is''] then ''is'' else ''was'') @ [CHR 0x27])))"
    using h read_changes_first_malformed [of ks json_chgs k ks' "[]"] by simp
  show "snd (snd (update ev p r should))
                = Inr (Err (Error (''malformed change: entry for '' @ k
                    @ '' does not contain ''
                    @ [CHR 0x27] @ (if \<not> json_includes json_chgs [k, ''is''] then ''is''
                              else ''was'') @ [CHR 0x27])))"
    unfolding update_with_changes [OF assms(1,2) contains_error_none [OF assms(3)] inc
        conjunct1 [OF h]]
    by (simp add: rc)
qed

theorem update_reply_changes_witness:
  "snd (snd (update (backend (JObject [])) the_provider (create ''sshd'') ensure_present))
     = Inr (Ok [])
   \<and> snd (snd (update (backend no_was_doc) the_provider (create ''sshd'') ensure_present))
     = Inr (Err (Error (''malformed change: entry for mode does not contain '' @ [CHR 0x27] @ ''was'' @ [CHR 0x27])))"
proof -
  have h1: "update_request (backend (JObject [])) (create ''sshd'') ensure_present
     = Inr sshd_request"
    by code_simp
  have h2: "run_action (backend (JObject [])) the_provider ''update'' sshd_request
     = Inr (Ok (JObject []))"
    by code_simp
  have h3: "\<not> json_includes (JObject []) [''error'']"
    by code_simp
  have h4: "\<not> json_includes (JObject []) [''changes'']"
    by code_simp
  have g1: "update_request (backend no_was_doc) (create ''sshd'') ensure_present
     = Inr sshd_request"
    by code_simp
  have g2: "run_action (backend no_was_doc) the_provider ''update'' sshd_request
     = Inr (Ok no_was_doc)"
    by code_simp
  have g3: "\<not> json_includes no_was_doc [''error'']"
    by code_simp
  have g4: "get_container no_was_doc ''changes'' = Inr no_was_changes"
    by code_simp
  have g5: "json_keys no_was_changes = [''ensure''] @ ''mode'' # []"
    by code_simp
  have g6: "get_string no_was_changes [''ensure'', ''is''] = Inr ''present''"
    "get_string no_was_changes [''ensure'', ''was''] = Inr ''absent''"
    by code_simp+
  have g7: "json_includes no_was_changes [''mode'', ''is'']"
    "\<not> json_includes no_was_changes [''mode'', ''was'']"
    by code_simp+
  show ?thesis
    using update_reply_changes [OF h1 h2 h3, of no_was_changes "[''ensure'']" "''mode''" "[]"]
      update_reply_changes [OF g1 g2 g3, of no_was_changes "[''ensure'']" "''mode''" "[]"]
      h4 g4 g5 g6 g7
    by simp
qed

text \<open>
  C4 as the claim words it fails: the entry \<open>b\<close> lacks both fields, but the entry \<open>a\<close>
  before it has a number as its \<open>is\<close>, and reading that as a string raises the type
  error of the JSON collaborator before \<open>b\<close> is looked at; the outcome is that
  exception, not an error result.
\<close>

theorem update_mistyped_entry_counterexample:
  "run_action (backend mistyped_doc) the_provider ''update''
      (JObject [(''ral'', JObject [(''noop'', JBool False)]),
                (''resource'', JObject [(''name'', JString ''sshd'')])])
     = Inr (Ok mistyped_doc)
   \<and> \<not> json_includes mistyped_doc [''error'']
   \<and> \<not> json_includes mistyped_doc [''changes'', ''b'', ''is'']
   \<and> snd (snd (update (backend mistyped_doc) the_provider (create ''sshd'') fmempty))
       = Inl Data_type_error"
  by code_simp

subsection \<open>instances\<close>

lemma convert_all_stops:
  assumes "list_all2 (\<lambda>j rsrc. resource_from_json j = Inr (Ok rsrc)) pre rs"
    and "resource_from_json bad = Inr (Err e)"
  shows "convert_all p (pre @ bad # post) result
         = ([(Log_error, ''provider['' @ path p @ '']: '' @ ''list failed: '' @ detail e)], Inr (result @ rs))"
  using assms(1)
proof (induction pre rs arbitrary: result rule: list_all2_induct)
  case Nil
  then show ?case using assms(2) by (simp add: provider_msg_def)
next
  case (Cons j js rsrc rs)
  then show ?case by simp
qed

text \<open>
  C3, as the code has it: let the \<open>list\<close> reply be a document that \<open>run_action\<close>
  returns, with no error envelope, whose \<open>resources\<close> member reads as a list of object
  documents.  If an entry \<open>bad\<close> of that list fails conversion with an error (it has no
  name), and every entry \<open>pre\<close> before it converts to a resource, giving \<open>rs\<close>, then
  the enumeration is aborted at \<open>bad\<close> and logged, and \<open>instances\<close> returns exactly
  \<open>rs\<close>: the resources converted before the failing entry, and none from that entry or
  from the entries \<open>post\<close> after it.
\<close>

theorem instances_returns_converted_prefix:
  assumes "run_action ev p ''list'' (JObject []) = Inr (Ok out)"
    and "\<not> json_includes out [''error'']"
    and "get_containers out ''resources'' = Inr (pre @ bad # post)"
    and "list_all2 (\<lambda>j rsrc. resource_from_json j = Inr (Ok rsrc)) pre rs"
    and "resource_from_json bad = Inr (Err e)"
  shows "instances ev p
         = ([(Log_error, ''provider['' @ path p @ '']: '' @ ''list failed: '' @ detail e)], Inr rs)"
proof -
  have inc: "json_includes out [''resources'']"
    using assms(3) by (auto simp: get_containers_def json_includes_def split: option.splits)
  show ?thesis
    using assms(1,3) inc convert_all_stops [OF assms(4,5), of p post "[]"]
    by (simp add: instances_def contains_error_none [OF assms(2)])
qed

theorem instances_returns_converted_prefix_witness:
  "instances (backend list_doc) the_provider
     = ([(Log_error, ''provider['' @ path the_provider @ '']: list failed: resource does not have a name'')],
        Inr [create ''a''])"
proof -
  have h1: "run_action (backend list_doc) the_provider ''list'' (JObject []) = Inr (Ok list_doc)"
    by code_simp
  have h2: "\<not> json_includes list_doc [''error'']"
    by code_simp
  have h3: "get_containers list_doc ''resources''
     = Inr ([JObject [(''name'', JString ''a'')]] @ JObject [(''x'', JString ''1'')]
            # [JObject [(''name'', JString ''c'')]])"
    by code_simp
  have c: "resource_from_json (JObject [(''name'', JString ''a'')]) = Inr (Ok (create ''a''))"
    by code_simp
  have h4: "list_all2 (\<lambda>j rsrc. resource_from_json j = Inr (Ok rsrc))
              [JObject [(''name'', JString ''a'')]] [create ''a'']"
    using c by simp
  have h5: "resource_from_json (JObject [(''x'', JString ''1'')])
     = Inr (Err (Error ''resource does not have a name''))"
    by code_simp
  show ?thesis
    using instances_returns_converted_prefix [OF h1 h2 h3 h4 h5] by simp
qed

text \<open>
  C3 as the claim words it fails: the second entry of the reply has no name and fails
  conversion, and \<open>instances\<close> returns the resource \<open>a\<close> converted before it.
\<close>

theorem instances_partial_counterexample:
  "resource_from_json (JObject [(''x'', JString ''1'')])
     = Inr (Err (Error ''resource does not have a name''))
   \<and> snd (instances (backend list_doc) the_provider) = Inr [create ''a'']"
  by code_simp

subsection \<open>find\<close>

lemma resource_from_json_no_name:
  "\<not> json_includes j [''name''] \<Longrightarrow>
   resource_from_json j = Inr (Err (Error ''resource does not have a name''))"
  by (simp add: resource_from_json_def)

lemma contains_error_envelope:
  "json_includes out [''error''] \<Longrightarrow>
   get_string_default out [''error'', ''message''] [] = Inr message \<Longrightarrow>
   get_string_default out [''error'', ''kind''] ''failed'' = Inr kind \<Longrightarrow>
   contains_error out m k = Inr (True, message, kind)"
  by (simp add: contains_error_def)

text \<open>
  C6, as the code has it: \<open>find\<close> returns the absent resource, never an error and never
  a resource, in each of these outcomes.  (1) \<open>run_action\<close> returns an error.  (2) The
  reply carries an error envelope whose \<open>message\<close> and \<open>kind\<close>, where present, read as
  strings; with the kind \<open>unknown\<close>, the normal not-found case, nothing is logged
  either.  (3) The reply has no error envelope and its \<open>resource\<close> payload has no
  name, so that its conversion returns an error.  (4) The reply has no error envelope
  and its \<open>resource\<close> payload converts to a resource whose name differs from the
  requested name.
\<close>

theorem find_swallows_failures:
  "(run_action ev p ''find'' (JObject [(''resource'', JObject [(''name'', JString nm)])])
      = Inr (Err e)
     \<longrightarrow> snd (json_find ev p nm) = Inr None)
   \<and> (run_action ev p ''find'' (JObject [(''resource'', JObject [(''name'', JString nm)])])
        = Inr (Ok out)
      \<and> json_includes out [''error'']
      \<and> get_string_default out [''error'', ''message''] [] = Inr message
      \<and> get_string_default out [''error'', ''kind''] ''failed'' = Inr kind
     \<longrightarrow> snd (json_find ev p nm) = Inr None
         \<and> (kind = ''unknown'' \<longrightarrow> fst (json_find ev p nm) = []))
   \<and> (run_action ev p ''find'' (JObject [(''resource'', JObject [(''name'', JString nm)])])
        = Inr (Ok out)
      \<and> \<not> json_includes out [''error'']
      \<and> get_container out ''resource'' = Inr json_rsrc
      \<and> \<not> json_includes json_rsrc [''name'']
     \<longrightarrow> snd (json_find ev p nm) = Inr None)
   \<and> (run_action ev p ''find'' (JObject [(''resource'', JObject [(''name'', JString nm)])])
        = Inr (Ok out)
      \<and> \<not> json_includes out [''error'']
      \<and> get_container out ''resource'' = Inr json_rsrc
      \<and> resource_from_json json_rsrc = Inr (Ok rsrc)
      \<and> name rsrc \<noteq> nm
     \<longrightarrow> snd (json_find ev p nm) = Inr None)"
  by (simp add: json_find_def contains_error_none contains_error_envelope
                resource_from_json_no_name)

theorem find_swallows_failures_witness:
  "json_find (script_exit False 1 [] []) the_provider ''sshd''
     = ([(Log_error, ''provider[/usr/lib/ral/provider]: action 'find' exited with status 1'')],
        Inr None)
   \<and> json_find (backend unknown_doc) the_provider ''sshd'' = ([], Inr None)
   \<and> snd (json_find (backend (JObject [(''resource'', JObject [(''ensure'', JString ''running'')])]))
             the_provider ''sshd'') = Inr None
   \<and> snd (json_find (backend (JObject [(''resource'', JObject [(''name'', JString ''cron'')])]))
             the_provider ''sshd'') = Inr None"
proof -
  let ?req = "JObject [(''resource'', JObject [(''name'', JString ''sshd'')])]"
  let ?d3 = "JObject [(''resource'', JObject [(''ensure'', JString ''running'')])]"
  let ?d4 = "JObject [(''resource'', JObject [(''name'', JString ''cron'')])]"
  have a1: "run_action (script_exit False 1 [] []) the_provider ''find'' ?req
     = Inr (Err (Error ''action 'find' exited with status 1''))"
    by code_simp
  have a0: "fst (json_find (script_exit False 1 [] []) the_provider ''sshd'')
     = [(Log_error, ''provider[/usr/lib/ral/provider]: action 'find' exited with status 1'')]"
    by code_simp
  have b1: "run_action (backend unknown_doc) the_provider ''find'' ?req = Inr (Ok unknown_doc)"
    by code_simp
  have b2: "json_includes unknown_doc [''error'']"
    by code_simp
  have b3: "get_string_default unknown_doc [''error'', ''message''] [] = Inr []"
    by code_simp
  have b4: "get_string_default unknown_doc [''error'', ''kind''] ''failed'' = Inr ''unknown''"
    by code_simp
  have c1: "run_action (backend ?d3) the_provider ''find'' ?req = Inr (Ok ?d3)"
    by code_simp
  have c2: "\<not> json_includes ?d3 [''error'']"
    by code_simp
  have c3: "get_container ?d3 ''resource'' = Inr (JObject [(''ensure'', JString ''running'')])"
    by code_simp
  have c4: "\<not> json_includes (JObject [(''ensure'', JString ''running'')]) [''name'']"
    by code_simp
  have d1: "run_action (backend ?d4) the_provider ''find'' ?req = Inr (Ok ?d4)"
    by code_simp
  have d2: "\<not> json_includes ?d4 [''error'']"
    by code_simp
  have d3: "get_container ?d4 ''resource'' = Inr (JObject [(''name'', JString ''cron'')])"
    by code_simp
  have d4: "resource_from_json (JObject [(''name'', JString ''cron'')]) = Inr (Ok (create ''cron''))"
    by code_simp
  have d5: "name (create ''cron'') \<noteq> ''sshd''"
    by (simp add: create_def)
  show ?thesis
    using
      find_swallows_failures [of "script_exit False 1 [] []" the_provider "''sshd''"
        "Error ''action 'find' exited with status 1''"]
      find_swallows_failures [of "backend unknown_doc" the_provider "''sshd''" _ unknown_doc
        "[]" "''unknown''"]
      find_swallows_failures [of "backend ?d3" the_provider "''sshd''" _ ?d3 _ _
        "JObject [(''ensure'', JString ''running'')]"]
      find_swallows_failures [of "backend ?d4" the_provider "''sshd''" _ ?d4 _ _
        "JObject [(''name'', JString ''cron'')]" "create ''cron''"]
      a0 a1 b1 b2 b3 b4 c1 c2 c3 c4 d1 d2 d3 d4 d5
    by (simp add: prod_eq_iff)
qed

text \<open>
  C6 as the claim words it fails: a reply that carries an error envelope whose message
  is a number, and a reply whose \<open>resource\<close> payload has a number as an attribute and so
  fails conversion, both make the typed read of the JSON collaborator raise; \<open>find\<close>
  does not catch the exception, and its outcome is that exception, not the absent
  resource.
\<close>

theorem find_mistyped_reply_counterexample:
  "run_action (backend mistyped_error_doc) the_provider ''find''
      (JObject [(''resource'', JObject [(''name'', JString ''sshd'')])])
     = Inr (Ok mistyped_error_doc)
   \<and> json_includes mistyped_error_doc [''error'']
   \<and> snd (json_find (backend mistyped_error_doc) the_provider ''sshd'') = Inl Data_type_error
   \<and> run_action (backend mistyped_resource_doc) the_provider ''find''
      (JObject [(''resource'', JObject [(''name'', JString ''sshd'')])])
     = Inr (Ok mistyped_resource_doc)
   \<and> resource_from_json (JObject [(''name'', JString ''sshd''), (''ensure'', JNumber 1)])
     = Inl Data_type_error
   \<and> snd (json_find (backend mistyped_resource_doc) the_provider ''sshd'')
     = Inl Data_type_error"
  by code_simp

end
